theory Spec2Isabelle
  imports Main "HOL-Library.Sublist"
begin

section \<open>Data model\<close>

text \<open>
  The program is \<^verbatim>\<open>src/autogen_project.py\<close>: a \<^verbatim>\<open>CoderAgent\<close> (the Generator),
  a \<^verbatim>\<open>ReviewerAgent\<close>, an \<^verbatim>\<open>ExecutorAgent\<close> (the Runner) and an
  \<^verbatim>\<open>Orchestrator\<close> (the Coordinator) whose \<^verbatim>\<open>run_task\<close> drives the attempt loop.
  A text is a string of code points below 256: a character stands for the code point of
  its number. \<^verbatim>\<open>Agent.say\<close> only prints and sleeps; it is taken to return, and it is
  left out of every definition below.
\<close>

type_synonym task = string
type_synonym code = string

text \<open>
  Code that the program does not hold runs inside several of its steps: the completion
  service, the candidate under \<^verbatim>\<open>exec\<close>, the function of the candidate that
  \<^verbatim>\<open>run_code\<close> calls, and the methods that turn an object or a raised condition into
  text. What such code can read and change (the modules of the interpreter, the live
  \<^verbatim>\<open>__builtins__\<close> among them, the dictionary \<^verbatim>\<open>local_vars\<close>, the remote service) is the
  environment, of type \<open>'e\<close>. Each such step is a function of the environment; it gives
  what the step returned or raised, and the environment it left. For \<^verbatim>\<open>write_code\<close> and
  \<^verbatim>\<open>run_task\<close> the environment is the state of the whole process, the attempt counter of
  the \<^verbatim>\<open>CoderAgent\<close> included, since such code can reach every object of the process.
  A step that never ends has no value here: every step is taken to return or raise.
  The names that the program itself refers to (its classes and methods, the built-ins
  \<^verbatim>\<open>exec\<close>, \<^verbatim>\<open>callable\<close>, \<^verbatim>\<open>len\<close> and \<^verbatim>\<open>type\<close>, the classes named in its \<^verbatim>\<open>except\<close> clauses,
  the modules it imports) are taken to denote what they denote when the program starts:
  code that rebinds them replaces a part of the program, which is then another program.
\<close>

text \<open>
  A raised Python condition. The \<^verbatim>\<open>except\<close> clauses of the program test
  \<^verbatim>\<open>SyntaxError\<close>, \<^verbatim>\<open>NameError\<close> and \<^verbatim>\<open>Exception\<close>; a condition is an instance
  of the first (with its subclasses, such as \<^verbatim>\<open>IndentationError\<close>), of the second
  (with \<^verbatim>\<open>UnboundLocalError\<close>), of \<^verbatim>\<open>Exception\<close> only, or of none of them
  (\<^verbatim>\<open>SystemExit\<close>, \<^verbatim>\<open>KeyboardInterrupt\<close>, \<^verbatim>\<open>GeneratorExit\<close>, which derive from
  \<^verbatim>\<open>BaseException\<close> directly). The other fields are what the f-strings of the handlers
  evaluate: \<open>type_name\<close> is \<^verbatim>\<open>type(e).__name__\<close>, \<open>as_str\<close> is the conversion \<^verbatim>\<open>{e}\<close>,
  \<open>lineno\<close> and \<open>msg\<close> are the conversions \<^verbatim>\<open>{e.lineno}\<close> and \<^verbatim>\<open>{e.msg}\<close>, which the
  program evaluates for instances of \<^verbatim>\<open>SyntaxError\<close> only. Each of them runs code of the
  class of the condition, and returns a text or raises a condition of its own.
\<close>

datatype exc_kind = SyntaxErrorKind | NameErrorKind | OtherException | NonException

datatype 'e raised =
  Exc (kind: exc_kind)
      (type_name: "'e \<Rightarrow> ('e raised + string) \<times> 'e")
      (as_str: "'e \<Rightarrow> ('e raised + string) \<times> 'e")
      (lineno: "'e \<Rightarrow> ('e raised + string) \<times> 'e")
      (msg: "'e \<Rightarrow> ('e raised + string) \<times> 'e")

definition is_SyntaxError :: "'e raised \<Rightarrow> bool" where
  "is_SyntaxError e = (kind e = SyntaxErrorKind)"

definition is_NameError :: "'e raised \<Rightarrow> bool" where
  "is_NameError e = (kind e = NameErrorKind)"

definition is_Exception :: "'e raised \<Rightarrow> bool" where
  "is_Exception e = (kind e \<noteq> NonException)"

text \<open>A conversion that returns the text \<open>t\<close>, and one that raises \<open>x\<close>.\<close>

definition returns :: "string \<Rightarrow> 'e \<Rightarrow> ('e raised + string) \<times> 'e" where
  "returns t env = (Inr t, env)"

definition raises :: "'e raised \<Rightarrow> 'e \<Rightarrow> ('e raised + string) \<times> 'e" where
  "raises x env = (Inl x, env)"

text \<open>The dictionaries returned by \<^verbatim>\<open>review\<close> and \<^verbatim>\<open>run_code\<close>.\<close>

record verdict =
  approved :: bool
  feedback :: string

text \<open>
  \<open>output'\<close> and \<open>error\<close> are \<^verbatim>\<open>None\<close> or a text. The dictionary that \<^verbatim>\<open>run_task\<close>
  builds on a rejection has no \<^verbatim>\<open>"output"\<close> entry; it is modelled with
  \<open>output' = None\<close>, and \<^verbatim>\<open>run_task\<close> never reads that entry.
\<close>

record outcome =
  worked :: bool
  output' :: "string option"
  error :: "string option"

section \<open>The Coordinator: \<^verbatim>\<open>Orchestrator.run_task\<close>\<close>

text \<open>
  What leaves \<^verbatim>\<open>run_task\<close> other than a returned dictionary: the
  \<^verbatim>\<open>UnboundLocalError\<close> of reading the local \<^verbatim>\<open>result\<close> before any assignment, or a
  condition that a stage let through. \<open>'x\<close> is the type of the raised conditions;
  \<^verbatim>\<open>run_task\<close> does not look into them.
\<close>

datatype 'x failure = UnboundLocalError | Uncaught 'x

text \<open>
  The three stages are arguments of \<^verbatim>\<open>run_task\<close>. Each is a function of the state
  \<open>'w\<close> of everything outside the Coordinator (the agents' attributes, the remote
  service); it returns a value or raises, and leaves a new state.
\<close>

type_synonym ('x, 'w) coder_fn = "task \<Rightarrow> string option \<Rightarrow> 'w \<Rightarrow> ('x + code) \<times> 'w"
type_synonym ('x, 'w) reviewer_fn = "code \<Rightarrow> task \<Rightarrow> 'w \<Rightarrow> ('x + verdict) \<times> 'w"
type_synonym ('x, 'w) executor_fn = "code \<Rightarrow> 'w \<Rightarrow> ('x + outcome) \<times> 'w"

text \<open>
  The log of the stage calls, each with the value of the loop variable \<^verbatim>\<open>attempt\<close>
  at the call, the arguments, and what the call returned or raised. The log is not part
  of the program: the properties about the number and order of calls are stated on it.
\<close>

datatype 'x event =
    Generated int "string option" "'x + code"
  | Reviewed int code "'x + verdict"
  | Executed int code "'x + outcome"

fun attempt_of :: "'x event \<Rightarrow> int" where
  "attempt_of (Generated a em c) = a"
| "attempt_of (Reviewed a c v) = a"
| "attempt_of (Executed a c r) = a"

fun is_Generated :: "'x event \<Rightarrow> bool" where
  "is_Generated (Generated a em c) = True"
| "is_Generated (Reviewed a c v) = False"
| "is_Generated (Executed a c r) = False"

fun is_Executed :: "'x event \<Rightarrow> bool" where
  "is_Executed (Executed a c r) = True"
| "is_Executed (Generated a em c) = False"
| "is_Executed (Reviewed a c v) = False"

definition generations :: "'x event list \<Rightarrow> 'x event list" where
  "generations evs = filter is_Generated evs"

definition executions :: "'x event list \<Rightarrow> 'x event list" where
  "executions evs = filter is_Executed evs"

text \<open>How one pass through the loop body ends.\<close>

datatype 'x step = Raise "'x failure" | Continue outcome | Return outcome

text \<open>
  The body of \<^verbatim>\<open>for attempt in range(1, max_tries + 1)\<close>, lines 258-285. \<open>result\<close> is
  the local variable of that name, \<open>None\<close> while it is unassigned. On the first attempt
  \<^verbatim>\<open>write_code\<close> is called without \<^verbatim>\<open>error_msg\<close>, whose default is \<^verbatim>\<open>None\<close>.
\<close>

definition attempt_body ::
  "task \<Rightarrow> ('x, 'w) coder_fn \<Rightarrow> ('x, 'w) reviewer_fn \<Rightarrow> ('x, 'w) executor_fn \<Rightarrow> int \<Rightarrow> int \<Rightarrow>
   outcome option \<Rightarrow> 'w \<Rightarrow> 'x step \<times> 'x event list \<times> 'w" where
  "attempt_body task coder reviewer executor max_tries attempt result w =
     (case (if attempt = 1 then Inr None
            else (case result of None \<Rightarrow> Inl UnboundLocalError | Some r \<Rightarrow> Inr (error r))) of
        Inl f \<Rightarrow> (Raise f, [], w)
      | Inr error_msg \<Rightarrow>
          (case coder task error_msg w of
             (Inl x, w1) \<Rightarrow> (Raise (Uncaught x), [Generated attempt error_msg (Inl x)], w1)
           | (Inr code, w1) \<Rightarrow>
               (case reviewer code task w1 of
                  (Inl x, w2) \<Rightarrow>
                    (Raise (Uncaught x),
                     [Generated attempt error_msg (Inr code), Reviewed attempt code (Inl x)], w2)
                | (Inr review, w2) \<Rightarrow>
                    if \<not> approved review \<and> attempt < max_tries
                    then (Continue \<lparr>worked = False, output' = None, error = Some (feedback review)\<rparr>,
                          [Generated attempt error_msg (Inr code),
                           Reviewed attempt code (Inr review)], w2)
                    else
                      (case executor code w2 of
                         (Inl x, w3) \<Rightarrow>
                           (Raise (Uncaught x),
                            [Generated attempt error_msg (Inr code),
                             Reviewed attempt code (Inr review),
                             Executed attempt code (Inl x)], w3)
                       | (Inr r, w3) \<Rightarrow>
                           (if worked r then Return r else Continue r,
                            [Generated attempt error_msg (Inr code),
                             Reviewed attempt code (Inr review),
                             Executed attempt code (Inr r)], w3)))))"

text \<open>
  The loop from the value \<open>attempt\<close> of the loop variable on, and the final
  \<^verbatim>\<open>return result\<close> of line 287.
\<close>

function run_from ::
  "task \<Rightarrow> ('x, 'w) coder_fn \<Rightarrow> ('x, 'w) reviewer_fn \<Rightarrow> ('x, 'w) executor_fn \<Rightarrow> int \<Rightarrow> int \<Rightarrow>
   outcome option \<Rightarrow> 'w \<Rightarrow> ('x failure + outcome) \<times> 'x event list \<times> 'w" where
  "run_from task coder reviewer executor max_tries attempt result w =
     (if max_tries < attempt
      then ((case result of None \<Rightarrow> Inl UnboundLocalError | Some r \<Rightarrow> Inr r), [], w)
      else
        (case attempt_body task coder reviewer executor max_tries attempt result w of
           (Raise f, evs, w') \<Rightarrow> (Inl f, evs, w')
         | (Return r, evs, w') \<Rightarrow> (Inr r, evs, w')
         | (Continue r, evs, w') \<Rightarrow>
             (case run_from task coder reviewer executor max_tries (attempt + 1) (Some r) w' of
                (res, evs', w'') \<Rightarrow> (res, evs @ evs', w''))))"
  by pat_completeness auto
termination
  by (relation "measure (\<lambda>(task, coder, reviewer, executor, max_tries, attempt, result, w).
        nat (max_tries + 1 - attempt))") auto

declare run_from.simps [simp del]

definition run_task ::
  "task \<Rightarrow> ('x, 'w) coder_fn \<Rightarrow> ('x, 'w) reviewer_fn \<Rightarrow> ('x, 'w) executor_fn \<Rightarrow> int \<Rightarrow> 'w \<Rightarrow>
   ('x failure + outcome) \<times> 'x event list \<times> 'w" where
  "run_task task coder reviewer executor max_tries w =
     run_from task coder reviewer executor max_tries 1 None w"


text \<open>
  Every call of every stage returns a value: no stage raises.
\<close>

definition stages_return ::
  "('x, 'w) coder_fn \<Rightarrow> ('x, 'w) reviewer_fn \<Rightarrow> ('x, 'w) executor_fn \<Rightarrow> bool" where
  "stages_return coder reviewer executor =
     ((\<forall>t e w. \<exists>c w'. coder t e w = (Inr c, w')) \<and>
      (\<forall>c t w. \<exists>v w'. reviewer c t w = (Inr v, w')) \<and>
      (\<forall>c w. \<exists>r w'. executor c w = (Inr r, w')))"
section \<open>Python's string operations\<close>

text \<open>
  \<^verbatim>\<open>sub in s\<close> on strings is \<^const>\<open>sublist\<close>. \<open>split_head sep s\<close> is
  \<^verbatim>\<open>s.split(sep)[0]\<close>: the text before the first occurrence of \<open>sep\<close>, all of \<open>s\<close> when
  there is none. The program calls it with a non-empty constant \<open>sep\<close> only (Python
  raises on an empty one).
\<close>

fun split_head :: "string \<Rightarrow> string \<Rightarrow> string" where
  "split_head sep [] = []"
| "split_head sep (c # cs) = (if prefix sep (c # cs) then [] else c # split_head sep cs)"

text \<open>
  \<^verbatim>\<open>s.replace(old, new)\<close> for a non-empty \<open>old\<close>, the only use in the program: the
  occurrences of \<open>old\<close> are replaced from left to right, without overlap.
\<close>

function replace :: "string \<Rightarrow> string \<Rightarrow> string \<Rightarrow> string" where
  "replace old new [] = []"
| "replace old new (c # cs) =
     (if old \<noteq> [] \<and> prefix old (c # cs)
      then new @ replace old new (drop (length old) (c # cs))
      else c # replace old new cs)"
  by pat_completeness auto
termination
  by (relation "measure (\<lambda>(old, new, s). length s)") (auto simp: neq_Nil_conv)

text \<open>
  \<^verbatim>\<open>str.isspace\<close> on one character, and \<^verbatim>\<open>s.strip()\<close>. Below 256 the white space of
  Python is the code points 9 to 13, 28 to 32, 133 and 160.
\<close>

definition is_space :: "char \<Rightarrow> bool" where
  "is_space c =
     (let n = (of_char c :: nat)
      in (9 \<le> n \<and> n \<le> 13) \<or> (28 \<le> n \<and> n \<le> 32) \<or> n = 133 \<or> n = 160)"

definition strip :: "string \<Rightarrow> string" where
  "strip s = rev (dropWhile is_space (rev (dropWhile is_space s)))"

text \<open>
  \<^verbatim>\<open>s.upper()\<close>. The letters \<^verbatim>\<open>a\<close> to \<^verbatim>\<open>z\<close> and the code points 224 to 254 other than
  247 move down by 32; code point 223 becomes \<^verbatim>\<open>SS\<close>. The upper-case forms of the code
  points 181 and 255 lie above 255: the two stand for them here. The program uses
  \<^verbatim>\<open>upper\<close> for one test, whether \<^verbatim>\<open>APPROVED\<close> occurs in the result, and neither those
  forms nor 181 and 255 are letters of that word.
\<close>

definition upper_char :: "char \<Rightarrow> string" where
  "upper_char c =
     (case map_of (zip ''abcdefghijklmnopqrstuvwxyz'' ''ABCDEFGHIJKLMNOPQRSTUVWXYZ'') c of
        Some u \<Rightarrow> [u]
      | None \<Rightarrow>
          (let n = (of_char c :: nat)
           in if n = 223 then ''SS''
              else if 224 \<le> n \<and> n \<le> 254 \<and> n \<noteq> 247 then [char_of (n - 32)]
              else [c]))"

definition upper :: "string \<Rightarrow> string" where
  "upper s = concat (map upper_char s)"

text \<open>\<^verbatim>\<open>sep.join(xs)\<close>.\<close>

fun join :: "string \<Rightarrow> string list \<Rightarrow> string" where
  "join sep [] = []"
| "join sep [x] = x"
| "join sep (x # y # ys) = x @ sep @ join sep (y # ys)"

text \<open>\<^verbatim>\<open>str(n)\<close> of an integer, and of \<^verbatim>\<open>e.lineno\<close>, which is an integer or \<^verbatim>\<open>None\<close>.\<close>

function str_nat :: "nat \<Rightarrow> string" where
  "str_nat n =
     (if n < 10 then [''0123456789'' ! n] else str_nat (n div 10) @ [''0123456789'' ! (n mod 10)])"
  by pat_completeness auto
termination
  by (relation "measure id") auto

declare str_nat.simps [simp del]

definition str_int :: "int \<Rightarrow> string" where
  "str_int i = (if i < 0 then CHR ''-'' # str_nat (nat (- i)) else str_nat (nat i))"

definition str_lineno :: "int option \<Rightarrow> string" where
  "str_lineno l = (case l of None \<Rightarrow> ''None'' | Some i \<Rightarrow> str_int i)"

definition quote :: string where
  "quote = [CHR 0x27]"

definition dquote :: string where
  "dquote = [CHR 0x22]"


section \<open>The completion service\<close>

text \<open>
  The argument of \<^verbatim>\<open>self.ai.chat.completions.create\<close>: the model, the messages (role
  and content), the temperature in tenths, the token limit. The service is a parameter
  of the components: from the request and the environment, it gives what
  \<^verbatim>\<open>response.choices[0].message.content\<close> evaluates to, a text or \<^verbatim>\<open>None\<close>, or the
  condition raised on the way, and the environment it leaves.
\<close>

record chat_request =
  model :: string
  messages :: "(string \<times> string) list"
  temperature :: nat
  max_tokens :: nat

type_synonym 'e completion_service =
  "chat_request \<Rightarrow> 'e \<Rightarrow> ('e raised + string option) \<times> 'e"

definition MODEL :: string where
  "MODEL = ''llama-3.1-8b-instant''"

text \<open>
  The \<^verbatim>\<open>AttributeError\<close> of calling a string method on \<^verbatim>\<open>None\<close>, when the content of
  the response is \<^verbatim>\<open>None\<close>. It is no instance of \<^verbatim>\<open>SyntaxError\<close>: its last two fields
  are never evaluated.
\<close>

definition none_has_no_attribute :: "string \<Rightarrow> 'e raised" where
  "none_has_no_attribute a =
     Exc OtherException (returns ''AttributeError'')
       (returns (quote @ ''NoneType'' @ quote @ '' object has no attribute '' @ quote @ a @ quote))
       (returns []) (returns [])"

section \<open>The Generator: \<^verbatim>\<open>CoderAgent\<close>\<close>

text \<open>
  The state of the process: \<open>self_attempt\<close> is the attribute \<^verbatim>\<open>self.attempt\<close> of the
  \<^verbatim>\<open>CoderAgent\<close>, set to 0 by \<^verbatim>\<open>__init__\<close> and incremented by every \<^verbatim>\<open>write_code\<close>;
  \<open>env\<close> is the rest. Python hides no attribute: the state is the environment of the
  service, of the candidate and of the conversions, which can change all of it.
\<close>

record 'e process =
  self_attempt :: nat
  env :: 'e

definition CoderAgent_init :: "'e \<Rightarrow> 'e process" where
  "CoderAgent_init e = \<lparr>self_attempt = 0, env = e\<rparr>"

text \<open>The truth value of \<^verbatim>\<open>error_msg\<close>: \<^verbatim>\<open>None\<close> and the empty text are false.\<close>

definition truthy :: "string option \<Rightarrow> bool" where
  "truthy error_msg = (case error_msg of None \<Rightarrow> False | Some m \<Rightarrow> m \<noteq> [])"

definition fix_instructions :: "task \<Rightarrow> string \<Rightarrow> string" where
  "fix_instructions task error_msg =
     ''The code you wrote before had this problem: '' @ error_msg @
     ''\<newline>\<newline>Original task: '' @ task @
     ''\<newline>\<newline>Please write working Python code that fixes this issue. '' @
     ''Just give me the code, no explanations.''"

definition incomplete_instructions :: "task \<Rightarrow> string" where
  "incomplete_instructions task =
     task @ ''\<newline>\<newline>Write Python code but make it incomplete (like leaving a TODO comment).'' @
     ''\<newline>This helps demonstrate how the system fixes itself.''"

definition complete_instructions :: "task \<Rightarrow> string" where
  "complete_instructions task =
     task @ ''\<newline>\<newline>Write complete, working Python code. Just the code, nothing else.''"

text \<open>
  Lines 63-81: the instructions, from the value of \<^verbatim>\<open>self.attempt\<close> after the
  increment of line 61.
\<close>

definition instructions :: "nat \<Rightarrow> task \<Rightarrow> string option \<Rightarrow> string" where
  "instructions attempt task error_msg =
     (if truthy error_msg then fix_instructions task (the error_msg)
      else if attempt = 1 then incomplete_instructions task
      else complete_instructions task)"

definition coder_request :: "string \<Rightarrow> chat_request" where
  "coder_request instr =
     \<lparr>model = MODEL,
      messages = [(''system'', ''You'' @ quote @ ''re a Python expert. Write clean code.''),
                  (''user'', instr)],
      temperature = 7, max_tokens = 800\<rparr>"

text \<open>
  Lines 103-105, the handler of \<^verbatim>\<open>write_code\<close>. \<^verbatim>\<open>except Exception\<close> catches the
  instances of \<^verbatim>\<open>Exception\<close>; any other condition leaves the method. The handler
  evaluates the conversion \<^verbatim>\<open>{e}\<close> twice, in the argument of \<^verbatim>\<open>say\<close> on line 104 and in
  the value of line 105; a condition raised by either leaves the method.
\<close>

definition write_code_except :: "'p raised \<Rightarrow> 'p \<Rightarrow> ('p raised + code) \<times> 'p" where
  "write_code_except e s1 =
     (if is_Exception e
      then (case as_str e s1 of
              (Inl x, s2) \<Rightarrow> (Inl x, s2)
            | (Inr shown, s2) \<Rightarrow>
                (case as_str e s2 of
                   (Inl x, s3) \<Rightarrow> (Inl x, s3)
                 | (Inr t, s3) \<Rightarrow> (Inr (''# Error: '' @ t), s3)))
      else (Inl e, s1))"

text \<open>
  Lines 95-105: what \<^verbatim>\<open>write_code\<close> makes of the answer \<open>r\<close> of the service. The
  \<^verbatim>\<open>replace\<close> of line 98 on a \<^verbatim>\<open>None\<close> content raises inside the \<^verbatim>\<open>try\<close>.
\<close>

definition coder_reply :: "('p raised + string option) \<times> 'p \<Rightarrow> ('p raised + code) \<times> 'p" where
  "coder_reply r =
     (case r of
        (Inl e, s1) \<Rightarrow> write_code_except e s1
      | (Inr None, s1) \<Rightarrow> write_code_except (none_has_no_attribute ''replace'') s1
      | (Inr (Some raw_code), s1) \<Rightarrow>
          (Inr (strip (replace ''```'' [] (replace ''```python'' [] raw_code))), s1))"

text \<open>\<^verbatim>\<open>write_code\<close>, lines 56-105: the increment of line 61, then the call.\<close>

definition write_code ::
  "('e process) completion_service \<Rightarrow> task \<Rightarrow> string option \<Rightarrow> 'e process \<Rightarrow>
   (('e process) raised + code) \<times> 'e process" where
  "write_code ai task error_msg s =
     (let s1 = s\<lparr>self_attempt := self_attempt s + 1\<rparr>;
          instr = instructions (self_attempt s1) task error_msg
      in coder_reply (ai (coder_request instr) s1))"

section \<open>The Reviewer: \<^verbatim>\<open>ReviewerAgent\<close>\<close>

text \<open>Lines 196-202: the checks made without the service.\<close>

definition issues :: "code \<Rightarrow> string list" where
  "issues code =
     (if sublist ''TODO'' code \<or> sublist ''pass'' code
      then [''Code looks incomplete (has TODO or pass)''] else []) @
     (if length (strip code) < 20 then [''Code seems too short to be complete''] else [])"

definition review_prompt :: "code \<Rightarrow> task \<Rightarrow> string" where
  "review_prompt code task =
     ''Review this Python code briefly:\<newline>\<newline>```python\<newline>'' @ code @
     ''\<newline>```\<newline>\<newline>Task it should solve: '' @ task @
     ''\<newline>\<newline>Just say '' @ dquote @ ''APPROVED'' @ dquote @
     '' if it looks complete and correct, or briefly explain what'' @ quote @ ''s wrong.''"

definition reviewer_request :: "string \<Rightarrow> chat_request" where
  "reviewer_request prompt =
     \<lparr>model = MODEL, messages = [(''user'', prompt)], temperature = 3, max_tokens = 200\<rparr>"

text \<open>Lines 233-236: the verdict of the checks made without the service.\<close>

definition basic_verdict :: "code \<Rightarrow> verdict" where
  "basic_verdict code =
     (if issues code \<noteq> []
      then \<lparr>approved = False, feedback = join '', '' (issues code)\<rparr>
      else \<lparr>approved = True, feedback = ''Basic checks passed''\<rparr>)"

text \<open>
  \<^verbatim>\<open>review\<close>, lines 191-236. The bare \<^verbatim>\<open>except:\<close> catches every condition, that of
  \<^verbatim>\<open>review.upper()\<close> on a \<^verbatim>\<open>None\<close> content among them, and its handler converts nothing
  to text.
\<close>

definition review :: "'e completion_service \<Rightarrow> code \<Rightarrow> task \<Rightarrow> 'e \<Rightarrow> verdict \<times> 'e" where
  "review ai code task env0 =
     (case ai (reviewer_request (review_prompt code task)) env0 of
        (Inr (Some review), env1) \<Rightarrow>
          (if sublist ''APPROVED'' (upper review)
           then \<lparr>approved = True, feedback = ''Looks good''\<rparr>
           else \<lparr>approved = False, feedback = review\<rparr>, env1)
      | (Inr None, env1) \<Rightarrow> (basic_verdict code, env1)
      | (Inl e, env1) \<Rightarrow> (basic_verdict code, env1))"

section \<open>The Runner: \<^verbatim>\<open>ExecutorAgent\<close>\<close>

text \<open>
  A Python object as \<^verbatim>\<open>run_code\<close> uses it. \<open>str_of\<close> is its conversion \<^verbatim>\<open>{result}\<close> in an
  f-string, which runs a method of the object. \<open>call10\<close> is \<open>None\<close> when the object is not
  callable, and otherwise the call with the argument 10, which returns an object or
  raises.
\<close>

datatype 'e pyobj =
  PyObj (str_of: "'e \<Rightarrow> ('e raised + string) \<times> 'e")
        (call10: "('e \<Rightarrow> ('e raised + 'e pyobj) \<times> 'e) option")

type_synonym 'e scope = "string \<rightharpoonup> 'e pyobj"

text \<open>
  The dictionary \<^verbatim>\<open>safe_space\<close> of lines 126-134, passed to \<^verbatim>\<open>exec\<close> as the globals
  of the candidate. Its entry \<^verbatim>\<open>'__builtins__'\<close> is the module \<^verbatim>\<open>__builtins__\<close> of the
  running interpreter, whose names are the parameter \<open>builtins\<close>; the other entries are
  single built-in functions.
\<close>

datatype binding = BuiltinsModule "string list" | Builtin string

type_synonym namespace = "(string \<times> binding) list"

definition safe_space :: "string list \<Rightarrow> namespace" where
  "safe_space builtins =
     [(''__builtins__'', BuiltinsModule builtins),
      (''print'', Builtin ''print''),
      (''range'', Builtin ''range''),
      (''len'', Builtin ''len''),
      (''sum'', Builtin ''sum''),
      (''max'', Builtin ''max''),
      (''min'', Builtin ''min'')]"

text \<open>
  Python's lookup of a global name in executed code: the globals first, then the
  namespace that the globals' entry \<^verbatim>\<open>'__builtins__'\<close> holds.
\<close>

definition resolves :: "namespace \<Rightarrow> string \<Rightarrow> bool" where
  "resolves globals name =
     (name \<in> set (map fst globals) \<or>
      (case map_of globals ''__builtins__'' of
         Some (BuiltinsModule names) \<Rightarrow> name \<in> set names
       | _ \<Rightarrow> False))"

text \<open>
  The interpreter is a parameter. \<open>exec_code\<close> is \<^verbatim>\<open>exec(code, safe_space, local_vars)\<close>
  under \<^verbatim>\<open>redirect_stdout\<close>: it finishes, leaving the captured text, or raises.
  \<open>builtins_of\<close> gives the names of the live module \<^verbatim>\<open>__builtins__\<close> in an environment, and
  \<open>locals_of\<close> the content of the dictionary \<^verbatim>\<open>local_vars\<close> of the running \<^verbatim>\<open>run_code\<close>:
  both are parts of the environment, which the candidate, the call of its function and
  the conversions can change.
\<close>

datatype 'e exec_result = Finished string | Raised "'e raised"

record 'e python =
  exec_code :: "code \<Rightarrow> namespace \<Rightarrow> 'e \<Rightarrow> 'e exec_result \<times> 'e"
  builtins_of :: "'e \<Rightarrow> string list"
  locals_of :: "'e \<Rightarrow> 'e scope"

text \<open>
  The loop of lines 152-156 over the conventional names: the first name bound in
  \<^verbatim>\<open>local_vars\<close> to a callable is called with 10, and line 155 converts what the call
  returns. \<open>Inr None\<close>: no such name. No code of the candidate runs before the call, so
  the dictionary is read once.
\<close>

fun call_conventional ::
  "'e scope \<Rightarrow> string list \<Rightarrow> 'e \<Rightarrow> ('e raised + string option) \<times> 'e" where
  "call_conventional local_vars [] env1 = (Inr None, env1)"
| "call_conventional local_vars (func_name # names) env1 =
     (case local_vars func_name of
        None \<Rightarrow> call_conventional local_vars names env1
      | Some f \<Rightarrow>
          (case call10 f of
             None \<Rightarrow> call_conventional local_vars names env1
           | Some call \<Rightarrow>
               (case call env1 of
                  (Inl e, env2) \<Rightarrow> (Inl e, env2)
                | (Inr result, env2) \<Rightarrow>
                    (case str_of result env2 of
                       (Inl e, env3) \<Rightarrow> (Inl e, env3)
                     | (Inr t, env3) \<Rightarrow> (Inr (Some (''Result: '' @ t)), env3)))))"

definition conventional_names :: "string list" where
  "conventional_names = [''fibonacci'', ''fib'', ''calculate'', ''main'']"


text \<open>
  The body of the \<^verbatim>\<open>try\<close>, lines 123-164: the text \<^verbatim>\<open>printed_stuff\<close> that line 164
  returns, or the condition raised on the way.
\<close>

definition run_code_try :: "'e python \<Rightarrow> code \<Rightarrow> 'e \<Rightarrow> ('e raised + string) \<times> 'e" where
  "run_code_try py code env0 =
     (case exec_code py code (safe_space (builtins_of py env0)) env0 of
        (Raised e, env1) \<Rightarrow> (Inl e, env1)
      | (Finished printed, env1) \<Rightarrow>
          (case call_conventional (locals_of py env1) conventional_names env1 of
             (Inl e, env2) \<Rightarrow> (Inl e, env2)
           | (Inr called, env2) \<Rightarrow>
               (let printed_stuff = (case called of None \<Rightarrow> printed | Some shown \<Rightarrow> shown)
                in case locals_of py env2 ''result'' of
                     None \<Rightarrow> (Inr printed_stuff, env2)
                   | Some result \<Rightarrow>
                       (case str_of result env2 of
                          (Inl e, env3) \<Rightarrow> (Inl e, env3)
                        | (Inr t, env3) \<Rightarrow> (Inr (''Result: '' @ t), env3)))))"

text \<open>
  The \<^verbatim>\<open>except\<close> clauses of lines 166-179, in their order. A condition raised by a
  conversion inside a handler leaves \<^verbatim>\<open>run_code\<close>: no clause of the same \<^verbatim>\<open>try\<close> catches
  it.
\<close>

definition run_code_except :: "'e raised \<Rightarrow> 'e \<Rightarrow> ('e raised + outcome) \<times> 'e" where
  "run_code_except e env1 =
     (if is_SyntaxError e
      then (case lineno e env1 of
              (Inl x, env2) \<Rightarrow> (Inl x, env2)
            | (Inr l, env2) \<Rightarrow>
                (case msg e env2 of
                   (Inl x, env3) \<Rightarrow> (Inl x, env3)
                 | (Inr m, env3) \<Rightarrow>
                     (Inr \<lparr>worked = False, output' = None,
                           error = Some (''Syntax error on line '' @ l @ '': '' @ m)\<rparr>, env3)))
      else if is_NameError e
      then (case as_str e env1 of
              (Inl x, env2) \<Rightarrow> (Inl x, env2)
            | (Inr t, env2) \<Rightarrow>
                (Inr \<lparr>worked = False, output' = None,
                      error = Some (''Variable or function not found: '' @ t)\<rparr>, env2))
      else if is_Exception e
      then (case type_name e env1 of
              (Inl x, env2) \<Rightarrow> (Inl x, env2)
            | (Inr n, env2) \<Rightarrow>
                (case as_str e env2 of
                   (Inl x, env3) \<Rightarrow> (Inl x, env3)
                 | (Inr t, env3) \<Rightarrow>
                     (Inr \<lparr>worked = False, output' = None, error = Some (n @ '': '' @ t)\<rparr>, env3)))
      else (Inl e, env1))"

text \<open>\<^verbatim>\<open>run_code\<close>, lines 116-179.\<close>

definition run_code :: "'e python \<Rightarrow> code \<Rightarrow> 'e \<Rightarrow> ('e raised + outcome) \<times> 'e" where
  "run_code py code env0 =
     (case run_code_try py code env0 of
        (Inr printed_stuff, env1) \<Rightarrow>
          (Inr \<lparr>worked = True, output' = Some printed_stuff, error = None\<rparr>, env1)
      | (Inl e, env1) \<Rightarrow> run_code_except e env1)"





section \<open>The agents as stages of \<^verbatim>\<open>run_task\<close>\<close>

text \<open>
  \<^verbatim>\<open>main\<close> and \<^verbatim>\<open>custom_mode\<close> pass a \<^verbatim>\<open>CoderAgent\<close>, a \<^verbatim>\<open>ReviewerAgent\<close> and an
  \<^verbatim>\<open>ExecutorAgent\<close> to \<^verbatim>\<open>run_task\<close>. \<^verbatim>\<open>write_code\<close> and \<^verbatim>\<open>run_code\<close> are stages as they
  are, on the state of the process; \<^verbatim>\<open>review\<close> never raises.
\<close>

definition reviewer_stage :: "'p completion_service \<Rightarrow> ('p raised, 'p) reviewer_fn" where
  "reviewer_stage ai code task s = (case review ai code task s of (v, s1) \<Rightarrow> (Inr v, s1))"

definition executor_stage :: "'p python \<Rightarrow> ('p raised, 'p) executor_fn" where
  "executor_stage py code s = run_code py code s"

section \<open>The persistence operation: \<^verbatim>\<open>update_readme_with_output\<close>\<close>

definition start_marker :: string where
  "start_marker = ''<!-- AUTO_GEN_OUTPUT_START -->''"

definition end_marker :: string where
  "end_marker = ''<!-- AUTO_GEN_OUTPUT_END -->''"

definition new_section :: "string \<Rightarrow> string" where
  "new_section output_text =
     start_marker @ ''\<newline>```\<newline>'' @ output_text @ ''\<newline>```\<newline>'' @ end_marker"

text \<open>
  Lines 317-342. \<open>readme\<close> is the content of \<^verbatim>\<open>README.md\<close>, \<open>None\<close> when the file does
  not exist; the value is the content the function writes.
\<close>

definition update_readme_with_output :: "string \<Rightarrow> string option \<Rightarrow> string" where
  "update_readme_with_output output_text readme =
     (let content = (case readme of
                       None \<Rightarrow> ''# AutoGen Demo Project\<newline>\<newline>## Latest Output\<newline>''
                     | Some c \<Rightarrow> c)
      in if sublist start_marker content \<and> sublist end_marker content
         then split_head start_marker content @ new_section output_text
         else content @ ''\<newline>\<newline>## Latest Output\<newline>'' @ new_section output_text @ ''\<newline>'')"

text \<open>
  The delimited section of a document, in the words of the specification: the text
  between the start marker and the end marker. The start marker is the first one of the
  document, the one \<^verbatim>\<open>update_readme_with_output\<close> cuts at, and the end marker the first
  one after it. \<open>after_first sep s\<close> is the text after the first occurrence of \<open>sep\<close>.
\<close>

fun after_first :: "string \<Rightarrow> string \<Rightarrow> string" where
  "after_first sep [] = []"
| "after_first sep (c # cs) =
     (if prefix sep (c # cs) then drop (length sep) (c # cs) else after_first sep cs)"

definition delimited_section :: "string \<Rightarrow> string option" where
  "delimited_section doc =
     (if sublist start_marker doc \<and> sublist end_marker (after_first start_marker doc)
      then Some (split_head end_marker (after_first start_marker doc))
      else None)"

section \<open>Sample behaviours\<close>

text \<open>
  Stages of the simplest kind, for running \<^verbatim>\<open>run_task\<close> on concrete inputs. The state
  counts the calls of the coder; the coder answers \<^verbatim>\<open>pass\<close> until it is given an error
  message; the reviewer rejects \<^verbatim>\<open>pass\<close>; the executor succeeds on everything else.
\<close>

definition demo_coder :: "(unit, nat) coder_fn" where
  "demo_coder task error_msg w =
     (Inr (case error_msg of None \<Rightarrow> ''pass'' | Some m \<Rightarrow> ''result = 55''), Suc w)"

definition demo_reviewer :: "(unit, nat) reviewer_fn" where
  "demo_reviewer code task w =
     (Inr \<lparr>approved = (code \<noteq> ''pass''), feedback = ''Code looks incomplete''\<rparr>, w)"

definition demo_executor :: "(unit, nat) executor_fn" where
  "demo_executor code w =
     (if code = ''pass''
      then Inr \<lparr>worked = False, output' = None, error = Some ''nothing to show''\<rparr>
      else Inr \<lparr>worked = True, output' = Some ''Result: 55'', error = None\<rparr>, w)"

text \<open>The task of \<^verbatim>\<open>main\<close>, line 369.\<close>

definition demo_task :: task where
  "demo_task = ''Write a Python function that calculates the 10th Fibonacci number''"

text \<open>
  A completion service that follows its instructions: asked for incomplete code it
  returns a stub, otherwise a complete program. And one whose every call fails with a
  connection error. Neither changes the state.
\<close>

definition obedient_service :: "'e completion_service" where
  "obedient_service req env0 =
     (if sublist ''make it incomplete'' (snd (last (messages req)))
      then Inr (Some ''# TODO: compute the number'')
      else Inr (Some ''result = 55''), env0)"

text \<open>
  Conditions and objects whose conversions return fixed texts: a condition of the kind
  \<open>k\<close> with the type name \<open>n\<close> and the text \<open>t\<close>; the \<^verbatim>\<open>SyntaxError\<close> of the parser with
  the line \<open>l\<close> and the message \<open>m\<close>; an object that is not callable, with the text \<open>t\<close>;
  a function, and what calling it with 10 does.
\<close>

definition plain_exc :: "exc_kind \<Rightarrow> string \<Rightarrow> string \<Rightarrow> 'e raised" where
  "plain_exc k n t = Exc k (returns n) (returns t) (returns []) (returns [])"

definition parser_exc :: "int option \<Rightarrow> string \<Rightarrow> 'e raised" where
  "parser_exc l m =
     Exc SyntaxErrorKind (returns ''SyntaxError'')
       (returns (case l of None \<Rightarrow> m
                 | Some k \<Rightarrow> m @ '' (<string>, line '' @ str_int k @ '')''))
       (returns (str_lineno l)) (returns m)"

definition py_text :: "string \<Rightarrow> 'e pyobj" where
  "py_text t = PyObj (returns t) None"

definition py_function :: "string \<Rightarrow> ('e \<Rightarrow> ('e raised + 'e pyobj) \<times> 'e) \<Rightarrow> 'e pyobj" where
  "py_function name call = PyObj (returns (''<function '' @ name @ ''>'')) (Some call)"

definition call_returns :: "'e pyobj \<Rightarrow> 'e \<Rightarrow> ('e raised + 'e pyobj) \<times> 'e" where
  "call_returns r env0 = (Inr r, env0)"

definition call_raises :: "'e raised \<Rightarrow> 'e \<Rightarrow> ('e raised + 'e pyobj) \<times> 'e" where
  "call_raises x env0 = (Inl x, env0)"

definition failing_service :: "'e completion_service" where
  "failing_service req env0 =
     (Inl (plain_exc OtherException ''APIConnectionError'' ''Connection error.''), env0)"

text \<open>
  What the Python interpreter does on a few candidates. In the state of the samples,
  \<open>env\<close> is the text of the candidate executed last, with the number of calls made to its
  function since: the content of \<^verbatim>\<open>local_vars\<close> is read off from the two. No sample
  touches the attempt counter.
\<close>

type_synonym sample_state = "(code \<times> nat) process"

definition candidate_exit :: code where
  "candidate_exit = ''raise SystemExit''"

definition candidate_sys_exit :: code where
  "candidate_sys_exit = ''import sys\<newline>sys.exit(1)''"

definition candidate_main :: code where
  "candidate_main = ''def main():\<newline>    return 55\<newline>result = main()''"

definition candidate_result :: code where
  "candidate_result = ''result = 55''"

definition candidate_fib :: code where
  "candidate_fib = ''def fib(n):\<newline>    return 55''"

definition candidate_print :: code where
  "candidate_print = ''print(55)''"

definition candidate_syntax :: code where
  "candidate_syntax = ''x = = 1''"

definition candidate_null :: code where
  "candidate_null = [CHR ''x'', CHR 0x00, CHR ''y'']"

definition candidate_name :: code where
  "candidate_name = ''print(y)''"

definition candidate_zero :: code where
  "candidate_zero = ''x = 1 / 0''"

definition candidate_bad_str :: code where
  "candidate_bad_str =
     ''class E(Exception):\<newline>    def __str__(self):\<newline>        raise RuntimeError('' @ quote @ ''no'' @
     quote @ '')\<newline>raise E()''"

definition candidate_default :: code where
  "candidate_default =
     ''def main(n, d=locals()):\<newline>    d['' @ quote @ ''result'' @ quote @ ''] = 99\<newline>    return 1''"

text \<open>
  The condition of \<open>candidate_bad_str\<close>: an instance of \<^verbatim>\<open>Exception\<close> whose \<^verbatim>\<open>__str__\<close>
  raises a \<^verbatim>\<open>RuntimeError\<close>.
\<close>

definition bad_str_exc :: "'e raised" where
  "bad_str_exc =
     Exc OtherException (returns ''E'') (raises (plain_exc OtherException ''RuntimeError'' ''no''))
       (returns []) (returns [])"

text \<open>The call \<^verbatim>\<open>main(10)\<close> of \<open>candidate_default\<close>: it returns 1, and is counted.\<close>

definition default_call :: "sample_state \<Rightarrow> (sample_state raised + sample_state pyobj) \<times> sample_state" where
  "default_call s = (Inr (py_text ''1''), s\<lparr>env := (fst (env s), Suc (snd (env s)))\<rparr>)"

definition sample_exec :: "code \<Rightarrow> namespace \<Rightarrow> sample_state \<Rightarrow> sample_state exec_result \<times> sample_state" where
  "sample_exec code globals s =
     (if code = candidate_exit then Raised (plain_exc NonException ''SystemExit'' [])
      else if code = candidate_sys_exit then Raised (plain_exc NonException ''SystemExit'' ''1'')
      else if code = candidate_print then Finished ''55\<newline>''
      else if code = candidate_syntax then Raised (parser_exc (Some 1) ''invalid syntax'')
      else if code = candidate_null
      then Raised (parser_exc None ''source code string cannot contain null bytes'')
      else if code = candidate_name
      then Raised (plain_exc NameErrorKind ''NameError''
                     (''name '' @ quote @ ''y'' @ quote @ '' is not defined''))
      else if code = candidate_zero
      then Raised (plain_exc OtherException ''ZeroDivisionError'' ''division by zero'')
      else if code = candidate_bad_str then Raised bad_str_exc
      else Finished [],
      s\<lparr>env := (code, 0)\<rparr>)"

definition sample_locals :: "sample_state \<Rightarrow> sample_state scope" where
  "sample_locals s =
     (if fst (env s) = candidate_main
      then [''main'' \<mapsto> py_function ''main''
              (call_raises (plain_exc OtherException ''TypeError''
                 ''main() takes 0 positional arguments but 1 was given'')),
            ''result'' \<mapsto> py_text ''55'']
      else if fst (env s) = candidate_result then [''result'' \<mapsto> py_text ''55'']
      else if fst (env s) = candidate_fib
      then [''fib'' \<mapsto> py_function ''fib'' (call_returns (py_text ''55''))]
      else if fst (env s) = candidate_default
      then (if snd (env s) = 0 then [''main'' \<mapsto> py_function ''main'' default_call]
            else [''main'' \<mapsto> py_function ''main'' default_call, ''result'' \<mapsto> py_text ''99''])
      else Map.empty)"

text \<open>Some of the names of Python's \<^verbatim>\<open>builtins\<close> module.\<close>

definition some_builtins :: "string list" where
  "some_builtins = [''print'', ''len'', ''open'', ''__import__'', ''exec'', ''eval'', ''exit'']"

definition sample_python :: "sample_state python" where
  "sample_python =
     \<lparr>exec_code = sample_exec, builtins_of = (\<lambda>s. some_builtins), locals_of = sample_locals\<rparr>"

text \<open>
  The state after the construction of the agents, before any candidate has run; and
  the state with the counter at \<open>a\<close> once the candidate \<open>code\<close> has run and its function has
  been called \<open>k\<close> times.
\<close>

definition fresh :: sample_state where
  "fresh = CoderAgent_init ([], 0)"

definition state_after :: "nat \<Rightarrow> code \<Rightarrow> nat \<Rightarrow> sample_state" where
  "state_after a code k = \<lparr>self_attempt = a, env = (code, k)\<rparr>"

text \<open>
  An interpreter reduced to one observation: it prints whether the name \<^verbatim>\<open>open\<close>
  resolves in the globals it is given. Its environment is the list of the names of the
  live \<^verbatim>\<open>__builtins__\<close>.
\<close>

definition probe_open :: "(string list) python" where
  "probe_open =
     \<lparr>exec_code = (\<lambda>code globals env0.
         (Finished (if resolves globals ''open'' then ''open resolves'' else ''open is undefined''),
          env0)),
      builtins_of = (\<lambda>env0. env0),
      locals_of = (\<lambda>env0. Map.empty)\<rparr>"

section \<open>Properties of the Coordinator\<close>

subsection \<open>Unfolding the loop\<close>

lemma run_from_done:
  "max_tries < attempt \<Longrightarrow>
   run_from task coder reviewer executor max_tries attempt result w =
     ((case result of None \<Rightarrow> Inl UnboundLocalError | Some r \<Rightarrow> Inr r), [], w)"
  by (simp add: run_from.simps)

lemma run_from_Raise:
  "\<not> max_tries < attempt \<Longrightarrow>
   attempt_body task coder reviewer executor max_tries attempt result w = (Raise f, evs, w1) \<Longrightarrow>
   run_from task coder reviewer executor max_tries attempt result w = (Inl f, evs, w1)"
  by (simp add: run_from.simps)

lemma run_from_Return:
  "\<not> max_tries < attempt \<Longrightarrow>
   attempt_body task coder reviewer executor max_tries attempt result w = (Return r, evs, w1) \<Longrightarrow>
   run_from task coder reviewer executor max_tries attempt result w = (Inr r, evs, w1)"
  by (simp add: run_from.simps)

lemma run_from_Continue:
  "\<not> max_tries < attempt \<Longrightarrow>
   attempt_body task coder reviewer executor max_tries attempt result w = (Continue r, evs, w1) \<Longrightarrow>
   run_from task coder reviewer executor max_tries (attempt + 1) (Some r) w1 = (res, evs', w2) \<Longrightarrow>
   run_from task coder reviewer executor max_tries attempt result w = (res, evs @ evs', w2)"
  by (subst run_from.simps) simp

text \<open>The ways through the loop body, with the log each leaves.\<close>

lemma attempt_body_cases:
  fixes coder :: "('x, 'w) coder_fn"
  obtains
    (unbound) "attempt \<noteq> 1" "result = None"
      "attempt_body task coder reviewer executor max_tries attempt result w =
         (Raise UnboundLocalError, [], w)"
  | (coder_raised) em x wa where
      "em = (if attempt = 1 then None else error (the result))"
      "coder task em w = (Inl x, wa)"
      "attempt_body task coder reviewer executor max_tries attempt result w =
         (Raise (Uncaught x), [Generated attempt em (Inl x)], wa)"
  | (reviewer_raised) em c x wa wb where
      "em = (if attempt = 1 then None else error (the result))"
      "reviewer c task wa = (Inl x, wb)"
      "attempt_body task coder reviewer executor max_tries attempt result w =
         (Raise (Uncaught x), [Generated attempt em (Inr c), Reviewed attempt c (Inl x)], wb)"
      "coder task em w = (Inr c, wa)"
  | (rejected) em c v wb wa where
      "em = (if attempt = 1 then None else error (the result))"
      "\<not> approved v" "attempt < max_tries"
      "attempt_body task coder reviewer executor max_tries attempt result w =
         (Continue \<lparr>worked = False, output' = None, error = Some (feedback v)\<rparr>,
          [Generated attempt em (Inr c), Reviewed attempt c (Inr v)], wb)"
      "coder task em w = (Inr c, wa)"
      "reviewer c task wa = (Inr v, wb)"
  | (executor_raised) em c v x wb wc wa where
      "em = (if attempt = 1 then None else error (the result))"
      "approved v \<or> \<not> attempt < max_tries"
      "executor c wb = (Inl x, wc)"
      "attempt_body task coder reviewer executor max_tries attempt result w =
         (Raise (Uncaught x),
          [Generated attempt em (Inr c), Reviewed attempt c (Inr v), Executed attempt c (Inl x)], wc)"
      "coder task em w = (Inr c, wa)"
      "reviewer c task wa = (Inr v, wb)"
  | (executed) em c v r wc wa wb where
      "em = (if attempt = 1 then None else error (the result))"
      "approved v \<or> \<not> attempt < max_tries"
      "attempt_body task coder reviewer executor max_tries attempt result w =
         (if worked r then Return r else Continue r,
          [Generated attempt em (Inr c), Reviewed attempt c (Inr v), Executed attempt c (Inr r)], wc)"
      "coder task em w = (Inr c, wa)"
      "reviewer c task wa = (Inr v, wb)"
      "executor c wb = (Inr r, wc)"
proof (cases "attempt \<noteq> 1 \<and> result = None")
  case True
  then show thesis using unbound by (simp add: attempt_body_def)
next
  case False
  define em where "em = (if attempt = 1 then None else error (the result))"
  have em: "em = (if attempt = 1 then None else error (the result))" by (rule em_def)
  have pre: "(if attempt = 1 then Inr None
         else (case result of None \<Rightarrow> Inl UnboundLocalError | Some r \<Rightarrow> Inr (error r))) = Inr em"
    using False by (auto simp: em_def)
  have body: "attempt_body task coder reviewer executor max_tries attempt result w =
    (case coder task em w of
       (Inl x, w1) \<Rightarrow> (Raise (Uncaught x), [Generated attempt em (Inl x)], w1)
     | (Inr co, w1) \<Rightarrow>
         (case reviewer co task w1 of
            (Inl x, w2) \<Rightarrow>
              (Raise (Uncaught x), [Generated attempt em (Inr co), Reviewed attempt co (Inl x)], w2)
          | (Inr vd, w2) \<Rightarrow>
              if \<not> approved vd \<and> attempt < max_tries
              then (Continue \<lparr>worked = False, output' = None, error = Some (feedback vd)\<rparr>,
                    [Generated attempt em (Inr co), Reviewed attempt co (Inr vd)], w2)
              else
                (case executor co w2 of
                   (Inl x, w3) \<Rightarrow>
                     (Raise (Uncaught x),
                      [Generated attempt em (Inr co), Reviewed attempt co (Inr vd),
                       Executed attempt co (Inl x)], w3)
                 | (Inr r, w3) \<Rightarrow>
                     (if worked r then Return r else Continue r,
                      [Generated attempt em (Inr co), Reviewed attempt co (Inr vd),
                       Executed attempt co (Inr r)], w3))))"
    unfolding attempt_body_def pre by simp
  obtain gc wa where g: "coder task em w = (gc, wa)" by (cases "coder task em w")
  show thesis
  proof (cases gc)
    case (Inl x)
    show thesis
      by (rule coder_raised[where em=em and x=x and wa=wa, OF em])
         (use body g Inl in simp_all)
  next
    case (Inr c)
    obtain rv wb where rv: "reviewer c task wa = (rv, wb)" by (cases "reviewer c task wa")
    show thesis
    proof (cases rv)
      case (Inl x)
      show thesis
        by (rule reviewer_raised[where em=em and c=c and x=x and wa=wa and wb=wb, OF em])
           (use body g Inr rv Inl in simp_all)
    next
      case v: (Inr v)
      show thesis
      proof (cases "\<not> approved v \<and> attempt < max_tries")
        case True
        show thesis
          by (rule rejected[where em=em and c=c and v=v and wb=wb and wa=wa, OF em])
             (use body g Inr rv v True in simp_all)
      next
        case nr: False
        obtain er wc where er: "executor c wb = (er, wc)" by (cases "executor c wb")
        show thesis
        proof (cases er)
          case (Inl x)
          show thesis
            by (rule executor_raised[where em=em and c=c and v=v and x=x and wb=wb and wc=wc and wa=wa,
                  OF em])
               (use body g Inr rv v nr er Inl in simp_all)
        next
          case r: (Inr r)
          show thesis
            by (rule executed[where em=em and c=c and v=v and r=r and wc=wc and wa=wa and wb=wb,
                  OF em])
               (use body g Inr rv v nr er r in simp_all)
        qed
      qed
    qed
  qed
qed

lemma generations_simps [simp]:
  "generations [] = []"
  "generations (Generated a em c # evs) = Generated a em c # generations evs"
  "generations (Reviewed a co v # evs) = generations evs"
  "generations (Executed a co r # evs) = generations evs"
  "generations (evs @ evs') = generations evs @ generations evs'"
  by (simp_all add: generations_def)

lemma executions_simps [simp]:
  "executions [] = []"
  "executions (Generated a em c # evs) = executions evs"
  "executions (Reviewed a co v # evs) = executions evs"
  "executions (Executed a co r # evs) = Executed a co r # executions evs"
  "executions (evs @ evs') = executions evs @ executions evs'"
  by (simp_all add: executions_def)

lemma run_from_returns:
  fixes coder :: "('x, 'w) coder_fn"
  assumes sr: "stages_return coder reviewer executor"
  shows "attempt \<le> max_tries \<Longrightarrow> attempt = 1 \<or> result \<noteq> None \<Longrightarrow>
    \<exists>out evs c k w'.
      run_from task coder reviewer executor max_tries attempt result w =
        (Inr out, evs @ [Executed k c (Inr out)], w') \<and>
      attempt \<le> k \<and> k \<le> max_tries \<and> (worked out \<or> k = max_tries) \<and>
      map attempt_of (generations (evs @ [Executed k c (Inr out)])) = [attempt..k] \<and>
      length (executions (evs @ [Executed k c (Inr out)])) \<le> nat (k + 1 - attempt)"
proof (induct "nat (max_tries - attempt)" arbitrary: attempt result w rule: less_induct)
  case less
  note le = \<open>attempt \<le> max_tries\<close> and ok = \<open>attempt = 1 \<or> result \<noteq> None\<close>
  have nlt: "\<not> max_tries < attempt" using le by simp
  let ?run = "run_from task coder reviewer executor max_tries"
  show ?case
  proof (cases rule: attempt_body_cases
      [of attempt result task coder reviewer executor max_tries w])
    case unbound
    with ok show ?thesis by simp
  next
    case (coder_raised em x wa)
    with sr show ?thesis unfolding stages_return_def by (metis Inl_Inr_False prod.inject)
  next
    case (reviewer_raised em c x wa wb)
    with sr show ?thesis unfolding stages_return_def by (metis Inl_Inr_False prod.inject)
  next
    case (executor_raised em c v x wb wc wa)
    with sr show ?thesis unfolding stages_return_def by (metis Inl_Inr_False prod.inject)
  next
    case (rejected em c v wb wa)
    let ?r = "\<lparr>worked = False, output' = None, error = Some (feedback v)\<rparr>"
    have "nat (max_tries - (attempt + 1)) < nat (max_tries - attempt)"
      using rejected(3) by simp
    from less(1)[OF this, of "Some ?r" wb] rejected(3)
    obtain out evs co k w' where
      run: "?run (attempt + 1) (Some ?r) wb = (Inr out, evs @ [Executed k co (Inr out)], w')"
      and k: "attempt + 1 \<le> k" "k \<le> max_tries" "worked out \<or> k = max_tries"
      and gens: "map attempt_of (generations (evs @ [Executed k co (Inr out)])) = [attempt + 1..k]"
      and execs: "length (executions (evs @ [Executed k co (Inr out)])) \<le> nat (k + 1 - (attempt + 1))"
      by auto
    from run_from_Continue[OF nlt rejected(4) run]
    have "?run attempt result w =
        (Inr out, ([Generated attempt em (Inr c), Reviewed attempt c (Inr v)] @ evs) @
           [Executed k co (Inr out)], w')"
      by simp
    moreover have "[attempt..k] = attempt # [attempt + 1..k]"
      using k(1) by (simp add: upto_rec1)
    ultimately show ?thesis
      using k gens execs by (intro exI conjI) (assumption | simp)+
  next
    case (executed em c v r wc wa wb)
    show ?thesis
    proof (cases "worked r")
      case True
      with run_from_Return[OF nlt, of task coder reviewer executor result w r _ wc] executed(3)
      have "?run attempt result w =
          (Inr r, [Generated attempt em (Inr c), Reviewed attempt c (Inr v)] @
             [Executed attempt c (Inr r)], wc)"
        by simp
      then show ?thesis
        using True le by (intro exI conjI) (assumption | simp)+
    next
      case nw: False
      then have body: "attempt_body task coder reviewer executor max_tries attempt result w =
          (Continue r, [Generated attempt em (Inr c), Reviewed attempt c (Inr v),
             Executed attempt c (Inr r)], wc)"
        using executed(3) by simp
      show ?thesis
      proof (cases "attempt < max_tries")
        case True
        have "nat (max_tries - (attempt + 1)) < nat (max_tries - attempt)"
          using True by simp
        from less(1)[OF this, of "Some r" wc] True
        obtain out evs co k w' where
          run: "?run (attempt + 1) (Some r) wc = (Inr out, evs @ [Executed k co (Inr out)], w')"
          and k: "attempt + 1 \<le> k" "k \<le> max_tries" "worked out \<or> k = max_tries"
          and gens: "map attempt_of (generations (evs @ [Executed k co (Inr out)])) = [attempt + 1..k]"
          and execs: "length (executions (evs @ [Executed k co (Inr out)])) \<le> nat (k + 1 - (attempt + 1))"
          by auto
        from run_from_Continue[OF nlt body run]
        have "?run attempt result w =
            (Inr out, ([Generated attempt em (Inr c), Reviewed attempt c (Inr v),
               Executed attempt c (Inr r)] @ evs) @ [Executed k co (Inr out)], w')"
          by simp
        moreover have "[attempt..k] = attempt # [attempt + 1..k]"
          using k(1) by (simp add: upto_rec1)
        ultimately show ?thesis
          using k gens execs by (intro exI conjI) (assumption | simp)+
      next
        case False
        with le have eq: "attempt = max_tries" by simp
        have "?run (attempt + 1) (Some r) wc = (Inr r, [], wc)"
          using eq by (simp add: run_from_done)
        from run_from_Continue[OF nlt body this]
        have "?run attempt result w =
            (Inr r, [Generated attempt em (Inr c), Reviewed attempt c (Inr v)] @
               [Executed attempt c (Inr r)], wc)"
          by simp
        then show ?thesis
          using eq by (intro exI conjI) (assumption | simp)+
      qed
    qed
  qed
qed





lemma run_from_unfold:
  fixes coder :: "('x, 'w) coder_fn"
  assumes nlt: "\<not> max_tries < attempt"
    and body: "attempt_body task coder reviewer executor max_tries attempt result w = (st, evb, wb)"
    and run: "run_from task coder reviewer executor max_tries attempt result w = (res, evs, w')"
  shows "(\<exists>r evs1. st = Continue r \<and> evs = evb @ evs1 \<and>
            run_from task coder reviewer executor max_tries (attempt + 1) (Some r) wb =
              (res, evs1, w')) \<or>
         ((\<forall>r. st \<noteq> Continue r) \<and> evs = evb)"
proof (cases st)
  case (Raise f)
  from run_from_Raise[OF nlt body[unfolded Raise]] run Raise show ?thesis by simp
next
  case (Return r)
  from run_from_Return[OF nlt body[unfolded Return]] run Return show ?thesis by simp
next
  case (Continue r)
  obtain res1 evs1 w1 where rec:
    "run_from task coder reviewer executor max_tries (attempt + 1) (Some r) wb = (res1, evs1, w1)"
    by (cases "run_from task coder reviewer executor max_tries (attempt + 1) (Some r) wb")
  from run_from_Continue[OF nlt body[unfolded Continue] rec] run rec Continue
  show ?thesis by simp
qed




subsection \<open>Bounded attempts, rejection, and the empty loop\<close>

text \<open>
  C1. For every \<open>max_tries \<ge> 1\<close> and all stages that return a value on every call, one
  call of \<^verbatim>\<open>run_task\<close> returns an outcome \<open>out\<close>, the one of the last Runner execution,
  which happened on attempt \<open>k \<le> max_tries\<close>; the outcome is terminal (it succeeded, or
  \<open>k = max_tries\<close>); the attempts of the Generator calls are \<open>1, 2, ..., k\<close>, strictly
  increasing and bounded by \<open>max_tries\<close>; and the Runner was executed at most \<open>max_tries\<close>
  times.
\<close>

theorem run_task_bounded_terminal:
  fixes coder :: "('x, 'w) coder_fn"
  assumes "1 \<le> max_tries" and "stages_return coder reviewer executor"
  shows "\<exists>out evs c k w'.
    run_task task coder reviewer executor max_tries w =
      (Inr out, evs @ [Executed k c (Inr out)], w') \<and>
    1 \<le> k \<and> k \<le> max_tries \<and> (worked out \<or> k = max_tries) \<and>
    map attempt_of (generations (evs @ [Executed k c (Inr out)])) = [1..k] \<and>
    length (executions (evs @ [Executed k c (Inr out)])) \<le> nat max_tries"
proof -
  from run_from_returns[OF assms(2) assms(1), of None task w]
  obtain out evs c k w' where
    run: "run_from task coder reviewer executor max_tries 1 None w =
      (Inr out, evs @ [Executed k c (Inr out)], w')"
    and k: "1 \<le> k" "k \<le> max_tries" "worked out \<or> k = max_tries"
    and gens: "map attempt_of (generations (evs @ [Executed k c (Inr out)])) = [1..k]"
    and execs: "length (executions (evs @ [Executed k c (Inr out)])) \<le> nat (k + 1 - 1)"
    by auto
  from execs k(2) have "length (executions (evs @ [Executed k c (Inr out)])) \<le> nat max_tries"
    by simp
  with run k gens show ?thesis
    unfolding run_task_def by blast
qed

theorem run_task_bounded_terminal_witness:
  "(1::int) \<le> 3 \<and> stages_return demo_coder demo_reviewer demo_executor \<and>
   (\<exists>out evs c k w'.
      run_task ''t'' demo_coder demo_reviewer demo_executor 3 (0::nat) =
        (Inr out, evs @ [Executed k c (Inr out)], w') \<and>
      1 \<le> k \<and> k \<le> 3 \<and> (worked out \<or> k = 3) \<and>
      map attempt_of (generations (evs @ [Executed k c (Inr out)])) = [1..k] \<and>
      length (executions (evs @ [Executed k c (Inr out)])) \<le> nat 3)"
proof -
  have h1: "(1::int) \<le> 3" by simp
  have h2: "stages_return demo_coder demo_reviewer demo_executor"
    by (simp add: stages_return_def demo_coder_def demo_reviewer_def demo_executor_def)
  from run_task_bounded_terminal[OF h1 h2, of "''t''" 0] h1 h2 show ?thesis by blast
qed





text \<open>
  C10. With \<open>max_tries < 1\<close> the loop body never runs: no stage is called, the state
  is unchanged, and the final \<^verbatim>\<open>return result\<close> raises \<^verbatim>\<open>UnboundLocalError\<close> instead of
  returning an outcome.
\<close>

theorem run_task_without_tries:
  "max_tries < 1 \<Longrightarrow>
   run_task task coder reviewer executor max_tries w = (Inl UnboundLocalError, [], w)"
  by (simp add: run_task_def run_from.simps)

theorem run_task_without_tries_witness:
  "(0::int) < 1 \<and>
   run_task ''t'' demo_coder demo_reviewer demo_executor 0 (0::nat) = (Inl UnboundLocalError, [], 0)"
  using run_task_without_tries[of 0 "''t''" demo_coder demo_reviewer demo_executor 0] by simp



section \<open>Properties of the Runner\<close>

subsection \<open>Auxiliary facts\<close>

lemma resolves_safe_space:
  "resolves (safe_space builtins) name \<longleftrightarrow>
     name \<in> set builtins \<or>
     name \<in> set [''__builtins__'', ''print'', ''range'', ''len'', ''sum'', ''max'', ''min'']"
  by (auto simp add: resolves_def safe_space_def)







subsection \<open>The sample interpreter on its candidates\<close>

lemma fresh_after: "fresh = state_after 0 [] 0"
  by (simp add: fresh_def CoderAgent_init_def state_after_def)

lemma state_after_simps:
  "self_attempt (state_after a c k) = a"
  "env (state_after a c k) = (c, k)"
  "state_after a c k\<lparr>env := (c', k')\<rparr> = state_after a c' k'"
  "state_after a c k\<lparr>self_attempt := a'\<rparr> = state_after a' c k"
  by (simp_all add: state_after_def)






lemmas exc_simps =
  run_code_except_def is_SyntaxError_def is_NameError_def is_Exception_def plain_exc_def
  parser_exc_def bad_str_exc_def returns_def raises_def

subsection \<open>The evaluation context\<close>

text \<open>
  C2. The claim is that the candidate runs in a context exposing only a minimal
  allow-list and no file-system, network or process-control capability. The dictionary
  \<^verbatim>\<open>safe_space\<close> holds the whole module \<^verbatim>\<open>__builtins__\<close>: with the built-ins of any
  Python interpreter, \<^verbatim>\<open>open\<close> and \<^verbatim>\<open>__import__\<close> resolve in the context, although
  \<^verbatim>\<open>open\<close> is none of the six functions listed.
\<close>

theorem safe_space_exposes_open:
  "resolves (safe_space some_builtins) ''open'' \<and>
   resolves (safe_space some_builtins) ''__import__'' \<and>
   ''open'' \<notin> set [''print'', ''range'', ''len'', ''sum'', ''max'', ''min''] \<and>
   run_code probe_open ''open'' some_builtins =
     (Inr \<lparr>worked = True, output' = Some ''open resolves'', error = None\<rparr>, some_builtins)"
  by (simp add: resolves_def safe_space_def some_builtins_def run_code_def run_code_try_def
      probe_open_def conventional_names_def)

subsection \<open>The reported result\<close>




subsection \<open>Raised conditions\<close>







section \<open>Properties of the Generator's state\<close>

subsection \<open>The attempt counter of the \<^verbatim>\<open>CoderAgent\<close>\<close>

lemma run_from_generates:
  fixes coder :: "('x, 'w) coder_fn"
  assumes le: "attempt \<le> max_tries" and ok: "attempt = 1 \<or> result \<noteq> None"
    and run: "run_from task coder reviewer executor max_tries attempt result w = (res, evs, w')"
  shows "\<exists>em x post. evs = Generated attempt em x # post"
proof -
  have nlt: "\<not> max_tries < attempt" using le by simp
  obtain st evb wb where body:
    "attempt_body task coder reviewer executor max_tries attempt result w = (st, evb, wb)"
    by (cases "attempt_body task coder reviewer executor max_tries attempt result w")
  have evb: "\<exists>em x post. evb = Generated attempt em x # post"
    by (cases rule: attempt_body_cases
        [of attempt result task coder reviewer executor max_tries w])
      (use body ok in auto)
  from run_from_unfold[OF nlt body run] evb show ?thesis by auto
qed

lemma run_from_counts_generations:
  fixes coder :: "('x, 'w) coder_fn" and f :: "'w \<Rightarrow> nat"
  assumes c: "\<And>t e w c w1. coder t e w = (c, w1) \<Longrightarrow> f w1 = Suc (f w)"
    and r: "\<And>c t w v w1. reviewer c t w = (v, w1) \<Longrightarrow> f w1 = f w"
    and x: "\<And>c w r w1. executor c w = (r, w1) \<Longrightarrow> f w1 = f w"
  shows "run_from task coder reviewer executor max_tries attempt result w = (res, evs, w') \<Longrightarrow>
    f w' = f w + length (generations evs)"
proof (induct "nat (max_tries + 1 - attempt)" arbitrary: attempt result w res evs w'
    rule: less_induct)
  case less
  note run = \<open>run_from task coder reviewer executor max_tries attempt result w = (res, evs, w')\<close>
  let ?run = "run_from task coder reviewer executor max_tries"
  show ?case
  proof (cases "max_tries < attempt")
    case True
    with run show ?thesis by (simp add: run_from_done)
  next
    case nlt: False
    have dec: "nat (max_tries + 1 - (attempt + 1)) < nat (max_tries + 1 - attempt)"
      using nlt by simp
    note ih = less(1)[OF dec]
    show ?thesis
    proof (cases rule: attempt_body_cases
        [of attempt result task coder reviewer executor max_tries w])
      case unbound
      from run_from_Raise[OF nlt unbound(3)] run show ?thesis by simp
    next
      case (coder_raised em x wa)
      from run_from_unfold[OF nlt coder_raised(3) run] nlt run coder_raised
        run_from_Raise[OF nlt coder_raised(3)] c[OF coder_raised(2)]
      show ?thesis by simp
    next
      case (reviewer_raised em co x wa wb)
      from run_from_unfold[OF nlt reviewer_raised(3) run] run
        run_from_Raise[OF nlt reviewer_raised(3)] c[OF reviewer_raised(4)] r[OF reviewer_raised(2)]
      show ?thesis by simp
    next
      case (executor_raised em co v x wb wc wa)
      from run_from_unfold[OF nlt executor_raised(4) run] run
        run_from_Raise[OF nlt executor_raised(4)] c[OF executor_raised(5)]
        r[OF executor_raised(6)] x[OF executor_raised(3)]
      show ?thesis by simp
    next
      case (rejected em co v wb wa)
      from run_from_unfold[OF nlt rejected(4) run]
      obtain evs1 where evs: "evs = [Generated attempt em (Inr co), Reviewed attempt co (Inr v)] @ evs1"
        and rec: "?run (attempt + 1)
          (Some \<lparr>worked = False, output' = None, error = Some (feedback v)\<rparr>) wb = (res, evs1, w')"
        by auto
      from ih[OF rec] evs c[OF rejected(5)] r[OF rejected(6)] show ?thesis by simp
    next
      case (executed em co v ro wc wa wb)
      have wc: "f wc = Suc (f w)"
        using c[OF executed(4)] r[OF executed(5)] x[OF executed(6)] by simp
      show ?thesis
      proof (cases "worked ro")
        case True
        with run_from_Return[OF nlt, of task coder reviewer executor result w ro _ wc] executed(3) run wc
        show ?thesis by simp
      next
        case False
        with run_from_unfold[OF nlt executed(3) run]
        obtain evs1 where evs: "evs = [Generated attempt em (Inr co), Reviewed attempt co (Inr v),
            Executed attempt co (Inr ro)] @ evs1"
          and rec: "?run (attempt + 1) (Some ro) wc = (res, evs1, w')"
          by auto
        from ih[OF rec] evs wc show ?thesis by simp
      qed
    qed
  qed
qed


lemma write_code_increments:
  assumes svc: "\<forall>req w r w'. ai req w = (r, w') \<longrightarrow> self_attempt w' = self_attempt w"
    and cnv: "\<forall>req w x w' w1 y w2. ai req w = (Inl x, w') \<and> as_str x w1 = (y, w2) \<longrightarrow>
      self_attempt w2 = self_attempt w1"
    and run: "write_code ai task error_msg s = (c, s1)"
  shows "self_attempt s1 = Suc (self_attempt s)"
proof -
  let ?s = "s\<lparr>self_attempt := self_attempt s + 1\<rparr>"
  let ?req = "coder_request (instructions (self_attempt s + 1) task error_msg)"
  obtain r w' where r: "ai ?req ?s = (r, w')" by (cases "ai ?req ?s")
  from svc r have w': "self_attempt w' = Suc (self_attempt s)" by fastforce
  have reply: "coder_reply (r, w') = (c, s1)"
    using run r by (simp add: write_code_def Let_def)
  have none: "write_code_except (none_has_no_attribute ''replace'') w' =
      (Inr (''# Error: '' @ quote @ ''NoneType'' @ quote @ '' object has no attribute '' @ quote @
            ''replace'' @ quote), w')"
    by (simp add: write_code_except_def none_has_no_attribute_def is_Exception_def returns_def)
  show ?thesis
  proof (cases r)
    case (Inl x)
    have keep: "self_attempt w2 = self_attempt w1" if "as_str x w1 = (y, w2)" for w1 y w2
      using cnv r Inl that by blast
    from reply Inl have "write_code_except x w' = (c, s1)"
      by (simp add: coder_reply_def)
    then show ?thesis
      using w' by (auto simp: write_code_except_def dest!: keep split: if_splits prod.splits sum.splits)
  next
    case (Inr content)
    with reply none w' show ?thesis
      by (cases content) (auto simp: coder_reply_def)
  qed
qed

lemma write_code_request:
  "write_code ai task None s =
     coder_reply (ai (coder_request (if self_attempt s = 0 then incomplete_instructions task
                                     else complete_instructions task))
                    (s\<lparr>self_attempt := Suc (self_attempt s)\<rparr>))"
  by (simp add: write_code_def instructions_def truthy_def Let_def)

subsection \<open>Two tasks in one process\<close>

lemma obedient_keeps_state: "obedient_service req w = (r, w') \<Longrightarrow> w' = w"
  by (auto simp: obedient_service_def split: if_splits)

lemma obedient_never_raises: "obedient_service req w \<noteq> (Inl x, w')"
  by (simp add: obedient_service_def)

lemma review_failing_keeps_state: "reviewer_stage failing_service c t w = (v, w') \<Longrightarrow> w' = w"
  by (auto simp: reviewer_stage_def review_def failing_service_def)

lemma sample_exec_state: "snd (sample_exec c g w) = w\<lparr>env := (c, 0)\<rparr>"
  by (simp add: sample_exec_def)

lemma sample_python_keeps_counter:
  "executor_stage sample_python c w = (r, w') \<Longrightarrow> self_attempt w' = self_attempt w"
  by (auto simp: executor_stage_def run_code_def run_code_try_def sample_python_def sample_exec_def
      sample_locals_def conventional_names_def py_function_def py_text_def call_raises_def
      call_returns_def default_call_def exc_simps Let_def
      split: if_splits prod.splits sum.splits option.splits)

lemma first_write_code:
  "write_code obedient_service demo_task None (state_after 0 c k) =
     (Inr ''# TODO: compute the number'', state_after 1 c k)"
  by (simp add: write_code_def coder_reply_def instructions_def truthy_def state_after_simps
      incomplete_instructions_def coder_request_def obedient_service_def demo_task_def
      sublist_code strip_def is_space_def)

lemma later_write_code:
  "write_code obedient_service demo_task None (state_after (Suc 0) c k) =
     (Inr ''result = 55'', state_after 2 c k)"
  by (simp add: write_code_def coder_reply_def instructions_def truthy_def state_after_simps
      complete_instructions_def coder_request_def obedient_service_def demo_task_def
      sublist_code strip_def is_space_def)

lemma first_review:
  "review failing_service ''# TODO: compute the number'' demo_task e0 =
     (\<lparr>approved = False, feedback = ''Code looks incomplete (has TODO or pass)''\<rparr>, e0)"
  by (simp add: review_def failing_service_def basic_verdict_def issues_def sublist_code
      strip_def is_space_def)

lemma later_review:
  "review failing_service ''result = 55'' demo_task e0 =
     (\<lparr>approved = False, feedback = ''Code seems too short to be complete''\<rparr>, e0)"
  by (simp add: review_def failing_service_def basic_verdict_def issues_def sublist_code
      strip_def is_space_def)

lemma first_run_code:
  "run_code sample_python ''# TODO: compute the number'' (state_after a c k) =
     (Inr \<lparr>worked = True, output' = Some [], error = None\<rparr>,
      state_after a ''# TODO: compute the number'' 0)"
  by (simp add: run_code_def run_code_try_def sample_python_def sample_exec_def sample_locals_def
      state_after_simps
      candidate_exit_def candidate_sys_exit_def candidate_main_def candidate_result_def
      candidate_fib_def candidate_print_def candidate_syntax_def candidate_null_def
      candidate_name_def candidate_zero_def candidate_bad_str_def candidate_default_def
      conventional_names_def)

lemma later_run_code:
  "run_code sample_python ''result = 55'' (state_after a c k) =
     (Inr \<lparr>worked = True, output' = Some ''Result: 55'', error = None\<rparr>,
      state_after a ''result = 55'' 0)"
  by (simp add: run_code_def run_code_try_def sample_python_def sample_exec_def sample_locals_def
      state_after_simps
      candidate_exit_def candidate_sys_exit_def candidate_main_def candidate_result_def
      candidate_fib_def candidate_print_def candidate_syntax_def candidate_null_def
      candidate_name_def candidate_zero_def candidate_bad_str_def candidate_default_def
      conventional_names_def py_text_def returns_def)

lemma first_task_run:
  "run_task demo_task (write_code obedient_service) (reviewer_stage failing_service)
     (executor_stage sample_python) 1 (state_after 0 c k) =
   (Inr \<lparr>worked = True, output' = Some [], error = None\<rparr>,
    [Generated 1 None (Inr ''# TODO: compute the number''),
     Reviewed 1 ''# TODO: compute the number''
       (Inr \<lparr>approved = False, feedback = ''Code looks incomplete (has TODO or pass)''\<rparr>),
     Executed 1 ''# TODO: compute the number''
       (Inr \<lparr>worked = True, output' = Some [], error = None\<rparr>)],
    state_after 1 ''# TODO: compute the number'' 0)"
  by (simp add: run_task_def run_from.simps attempt_body_def reviewer_stage_def
      executor_stage_def first_write_code first_review first_run_code)

lemma later_task_run:
  "run_task demo_task (write_code obedient_service) (reviewer_stage failing_service)
     (executor_stage sample_python) 1 (state_after (Suc 0) c k) =
   (Inr \<lparr>worked = True, output' = Some ''Result: 55'', error = None\<rparr>,
    [Generated 1 None (Inr ''result = 55''),
     Reviewed 1 ''result = 55''
       (Inr \<lparr>approved = False, feedback = ''Code seems too short to be complete''\<rparr>),
     Executed 1 ''result = 55''
       (Inr \<lparr>worked = True, output' = Some ''Result: 55'', error = None\<rparr>)],
    state_after 2 ''result = 55'' 0)"
  by (simp add: run_task_def run_from.simps attempt_body_def reviewer_stage_def
      executor_stage_def later_write_code later_review later_run_code)

text \<open>
  C7, as stated, fails. \<^verbatim>\<open>custom_mode\<close> passes the same \<^verbatim>\<open>CoderAgent\<close> to every
  \<^verbatim>\<open>run_task\<close>. With the same task, the same service and \<open>max_tries = 1\<close>, the first
  invocation finds the counter at 0, asks for incomplete code and reports an empty
  output; it leaves the counter at 1, and the second invocation asks for complete code
  and reports \<^verbatim>\<open>Result: 55\<close>. From the state the first invocation left, with the counter
  put back to 0, the outcome is that of the first: the counter makes the difference.
\<close>

theorem second_task_sees_other_generator:
  "fst (run_task demo_task (write_code obedient_service) (reviewer_stage failing_service)
          (executor_stage sample_python) 1 fresh) =
     Inr \<lparr>worked = True, output' = Some [], error = None\<rparr> \<and>
   snd (snd (run_task demo_task (write_code obedient_service) (reviewer_stage failing_service)
          (executor_stage sample_python) 1 fresh)) =
     state_after 1 ''# TODO: compute the number'' 0 \<and>
   fst (run_task demo_task (write_code obedient_service) (reviewer_stage failing_service)
          (executor_stage sample_python) 1 (state_after 1 ''# TODO: compute the number'' 0)) =
     Inr \<lparr>worked = True, output' = Some ''Result: 55'', error = None\<rparr> \<and>
   fst (run_task demo_task (write_code obedient_service) (reviewer_stage failing_service)
          (executor_stage sample_python) 1 (state_after 0 ''# TODO: compute the number'' 0)) =
     Inr \<lparr>worked = True, output' = Some [], error = None\<rparr>"
  by (simp add: first_task_run later_task_run fresh_after)

text \<open>
  C7, amended. The attempt counter of the Generator is mutable state that persists
  outside the stack frame of \<^verbatim>\<open>run_task\<close>: \<^verbatim>\<open>write_code\<close> increments it and never resets
  it. Take a completion service, a Reviewer and a Runner that leave the counter as it
  is, the service also in the conversion to text of the conditions it raises. Then an
  invocation with \<open>max_tries \<ge> 1\<close> and \<^verbatim>\<open>write_code\<close> as the Generator leaves the counter
  increased by the number of its Generator calls, which is at least one. So on the
  first attempt of every later invocation \<^verbatim>\<open>write_code\<close> sends the service the request
  for complete code, and it sends the request for intentionally incomplete code when
  the counter is at 0, as after the construction of the agent. Nothing is said about the
  other state of the process.
\<close>

theorem coder_attempt_persists:
  fixes reviewer :: "('e process raised, 'e process) reviewer_fn"
  assumes "1 \<le> max_tries"
    and svc: "\<forall>req w r w'. ai req w = (r, w') \<longrightarrow> self_attempt w' = self_attempt w"
    and cnv: "\<forall>req w x w' w1 y w2. ai req w = (Inl x, w') \<and> as_str x w1 = (y, w2) \<longrightarrow>
      self_attempt w2 = self_attempt w1"
    and rev: "\<forall>c t w v w'. reviewer c t w = (v, w') \<longrightarrow> self_attempt w' = self_attempt w"
    and exe: "\<forall>c w r w'. executor c w = (r, w') \<longrightarrow> self_attempt w' = self_attempt w"
    and run: "run_task task (write_code ai) reviewer executor max_tries s = (res, evs, s')"
  shows "self_attempt s' = self_attempt s + length (generations evs) \<and>
    0 < length (generations evs) \<and>
    (\<forall>ai2 task2.
       write_code ai2 task2 None s' =
         coder_reply (ai2 (coder_request (complete_instructions task2))
                        (s'\<lparr>self_attempt := Suc (self_attempt s')\<rparr>))) \<and>
    (\<forall>ai2 task2 e0.
       write_code ai2 task2 None (CoderAgent_init e0) =
         coder_reply (ai2 (coder_request (incomplete_instructions task2))
                        \<lparr>self_attempt = 1, env = e0\<rparr>))"
proof -
  note run' = run[unfolded run_task_def]
  have count: "self_attempt s' = self_attempt s + length (generations evs)"
    by (rule run_from_counts_generations[where f = self_attempt, OF _ _ _ run'])
       (use rev exe write_code_increments[OF svc cnv] in auto)
  from run_from_generates[OF assms(1) _ run']
  have pos: "0 < length (generations evs)" by auto
  from count pos have "self_attempt s' \<noteq> 0" by simp
  then show ?thesis
    using count pos by (simp add: write_code_request CoderAgent_init_def)
qed

theorem coder_attempt_persists_witness:
  "(1::int) \<le> 1 \<and>
   snd (snd (run_task demo_task (write_code obedient_service) (reviewer_stage failing_service)
          (executor_stage sample_python) 1 fresh)) =
     state_after 1 ''# TODO: compute the number'' 0 \<and>
   self_attempt (state_after 1 ''# TODO: compute the number'' 0) = 1 \<and>
   (\<forall>ai2 task2.
      write_code ai2 task2 None (state_after 1 ''# TODO: compute the number'' 0) =
        coder_reply (ai2 (coder_request (complete_instructions task2))
                       (state_after 2 ''# TODO: compute the number'' 0)))"
proof -
  have h: "(1::int) \<le> 1" by simp
  have svc: "\<forall>req w r w'. obedient_service req (w :: sample_state) = (r, w') \<longrightarrow>
      self_attempt w' = self_attempt w"
    by (auto dest: obedient_keeps_state)
  have cnv: "\<forall>req w x w' w1 y w2.
      obedient_service req (w :: sample_state) = (Inl x, w') \<and> as_str x w1 = (y, w2) \<longrightarrow>
      self_attempt w2 = self_attempt w1"
    by (simp add: obedient_never_raises)
  have rev: "\<forall>c t w v w'. reviewer_stage failing_service c t (w :: sample_state) = (v, w') \<longrightarrow>
      self_attempt w' = self_attempt w"
    by (auto dest: review_failing_keeps_state)
  have exe: "\<forall>c w r w'. executor_stage sample_python c w = (r, w') \<longrightarrow>
      self_attempt w' = self_attempt w"
    by (auto dest: sample_python_keeps_counter)
  have run: "run_task demo_task (write_code obedient_service) (reviewer_stage failing_service)
     (executor_stage sample_python) 1 fresh =
   (Inr \<lparr>worked = True, output' = Some [], error = None\<rparr>,
    [Generated 1 None (Inr ''# TODO: compute the number''),
     Reviewed 1 ''# TODO: compute the number''
       (Inr \<lparr>approved = False, feedback = ''Code looks incomplete (has TODO or pass)''\<rparr>),
     Executed 1 ''# TODO: compute the number''
       (Inr \<lparr>worked = True, output' = Some [], error = None\<rparr>)],
    state_after 1 ''# TODO: compute the number'' 0)"
    by (simp add: first_task_run fresh_after)
  note third = coder_attempt_persists[OF h svc cnv rev exe run, THEN conjunct2, THEN conjunct2,
      THEN conjunct1]
  from third h run show ?thesis
    by (simp add: state_after_simps numeral_2_eq_2)
qed
section \<open>Properties of the persistence operation\<close>

subsection \<open>First occurrences\<close>

lemma split_head_sublist:
  "sublist sep s \<Longrightarrow> split_head sep (s @ t) = split_head sep s"
proof (induction s)
  case Nil
  then show ?case by (cases t) simp_all
next
  case (Cons c cs)
  show ?case
  proof (cases "prefix sep (c # cs)")
    case True
    then have "prefix sep ((c # cs) @ t)" by (rule prefix_prefix)
    with True show ?thesis by simp
  next
    case False
    with Cons.prems have sub: "sublist sep cs" by (simp add: sublist_Cons_right)
    then have "length sep \<le> length (c # cs)" using sublist_length_le by fastforce
    with False have "\<not> prefix sep ((c # cs) @ t)"
      by (metis prefix_length_prefix prefixI append_prefixD prefix_order.order_refl)
    with False Cons.IH[OF sub] show ?thesis by simp
  qed
qed

lemma split_decompose:
  "sublist sep s \<Longrightarrow> s = split_head sep s @ sep @ after_first sep s"
proof (induction s)
  case Nil
  then show ?case by simp
next
  case (Cons c cs)
  show ?case
  proof (cases "prefix sep (c # cs)")
    case True
    then show ?thesis by (auto simp: prefix_def)
  next
    case False
    with Cons.prems have "sublist sep cs" by (simp add: sublist_Cons_right)
    with False Cons.IH show ?thesis by simp
  qed
qed

lemma split_head_rebuilt:
  assumes "sublist sep s"
  shows "split_head sep (split_head sep s @ sep @ t) = split_head sep s"
proof -
  let ?h = "split_head sep s"
  have sub: "sublist sep (?h @ sep)" by simp
  have "split_head sep ((?h @ sep) @ t) = split_head sep (?h @ sep)"
    by (rule split_head_sublist[OF sub])
  also have "split_head sep (?h @ sep) = split_head sep ((?h @ sep) @ after_first sep s)"
    by (rule split_head_sublist[OF sub, symmetric])
  also have "(?h @ sep) @ after_first sep s = s"
    using split_decompose[OF assms] by simp
  finally show ?thesis by simp
qed

lemma no_prefix_across:
  assumes "\<not> sublist sep (x # s)" "c \<notin> set sep"
  shows "\<not> prefix sep ((x # s) @ c # t)"
proof
  assume "prefix sep ((x # s) @ c # t)"
  then have "prefix sep (x # s) \<or> (\<exists>us. sep = (x # s) @ us \<and> prefix us (c # t))"
    using prefix_append[of sep "x # s" "c # t"] by simp
  then consider "prefix sep (x # s)" | us where "sep = (x # s) @ us" "prefix us (c # t)"
    by blast
  then show False
  proof cases
    case 1
    with assms(1) show False by auto
  next
    case 2
    show False
    proof (cases us)
      case Nil
      with 2 assms(1) show False by auto
    next
      case (Cons u us')
      with 2 have "u = c" by simp
      with 2 Cons assms(2) show False by simp
    qed
  qed
qed

lemma split_head_absent:
  "\<not> sublist sep s \<Longrightarrow> c \<notin> set sep \<Longrightarrow> split_head sep (s @ c # t) = s @ split_head sep (c # t)"
proof (induction s)
  case Nil
  then show ?case by simp
next
  case (Cons x s)
  from Cons.prems have "\<not> prefix sep ((x # s) @ c # t)" by (rule no_prefix_across)
  moreover from Cons.prems(1) have "\<not> sublist sep s" by (simp add: sublist_Cons_right)
  ultimately show ?case using Cons.IH Cons.prems(2) by simp
qed

lemma after_first_absent:
  "\<not> sublist sep s \<Longrightarrow> c \<notin> set sep \<Longrightarrow> after_first sep (s @ c # t) = after_first sep (c # t)"
proof (induction s)
  case Nil
  then show ?case by simp
next
  case (Cons x s)
  from Cons.prems have "\<not> prefix sep ((x # s) @ c # t)" by (rule no_prefix_across)
  moreover from Cons.prems(1) have "\<not> sublist sep s" by (simp add: sublist_Cons_right)
  ultimately show ?case using Cons.IH Cons.prems(2) by simp
qed


lemma split_head_heading:
  "split_head start_marker (''\<newline>\<newline>## Latest Output\<newline>'' @ start_marker @ t) =
     ''\<newline>\<newline>## Latest Output\<newline>''"
  by (simp add: start_marker_def)

lemma after_first_heading:
  "after_first start_marker (''\<newline>\<newline>## Latest Output\<newline>'' @ start_marker @ t) = t"
  by (simp add: start_marker_def)

lemma newline_not_in_start_marker: "CHR ''\<newline>'' \<notin> set start_marker"
  by (simp add: start_marker_def)

lemma after_first_at_start: "after_first start_marker (start_marker @ t) = t"
  by (simp add: start_marker_def)

subsection \<open>The text outside the section\<close>

text \<open>
  C8. The claim is that, with both markers present, every character outside the
  delimited section is unchanged, before the start marker and after the end marker.
  The function keeps the text before the first start marker and writes the new section
  in place of all that follows: the text after the end marker is lost.
\<close>

theorem update_drops_text_after_end_marker:
  "update_readme_with_output ''new''
     (Some (''intro\<newline>'' @ start_marker @ ''\<newline>old\<newline>'' @ end_marker @ ''\<newline>footer\<newline>'')) =
   ''intro\<newline>'' @ start_marker @ ''\<newline>```\<newline>new\<newline>```\<newline>'' @ end_marker"
  by (simp add: update_readme_with_output_def start_marker_def end_marker_def new_section_def
      sublist_code)

subsection \<open>Calling twice\<close>

lemma update_with_markers:
  assumes "sublist start_marker content" "sublist end_marker content"
  shows "update_readme_with_output p (Some (update_readme_with_output p (Some content))) =
    update_readme_with_output p (Some content)"
proof -
  let ?h = "split_head start_marker content"
  let ?rest = "''\<newline>```\<newline>'' @ p @ ''\<newline>```\<newline>'' @ end_marker"
  have d1: "update_readme_with_output p (Some content) = ?h @ start_marker @ ?rest"
    using assms by (simp add: update_readme_with_output_def new_section_def)
  have s1: "sublist start_marker (?h @ start_marker @ ?rest)"
    by (rule sublist_appendI)
  have "sublist end_marker
      ((?h @ start_marker @ ''\<newline>```\<newline>'' @ p @ ''\<newline>```\<newline>'') @ end_marker)"
    by (rule sublist_append_leftI)
  then have e1: "sublist end_marker (?h @ start_marker @ ?rest)" by simp
  have "split_head start_marker (?h @ start_marker @ ?rest) = ?h"
    by (rule split_head_rebuilt[OF assms(1)])
  with s1 e1 show ?thesis
    unfolding d1 by (simp add: update_readme_with_output_def new_section_def)
qed

lemma update_without_start:
  assumes "\<not> sublist start_marker content"
  shows "delimited_section
      (update_readme_with_output p (Some (update_readme_with_output p (Some content)))) =
    delimited_section (update_readme_with_output p (Some content))"
proof -
  let ?hd = "''\<newline>\<newline>## Latest Output\<newline>''"
  let ?mid = "''\<newline>```\<newline>'' @ p @ ''\<newline>```\<newline>'' @ end_marker"
  let ?d1 = "content @ ?hd @ start_marker @ ?mid @ ''\<newline>''"
  let ?d2 = "content @ ?hd @ start_marker @ ?mid"
  have d1: "update_readme_with_output p (Some content) = ?d1"
    using assms by (simp add: update_readme_with_output_def new_section_def)
  have mid_end: "sublist end_marker ?mid"
    using sublist_append_leftI[of end_marker "''\<newline>```\<newline>'' @ p @ ''\<newline>```\<newline>''"] by simp
  have mid_end': "sublist end_marker (?mid @ ''\<newline>'')"
    using sublist_appendI[of end_marker "''\<newline>```\<newline>'' @ p @ ''\<newline>```\<newline>''" "''\<newline>''"] by simp
  have s1: "sublist start_marker ?d1"
    using sublist_appendI[of start_marker "content @ ?hd" "?mid @ ''\<newline>''"] by simp
  have e1: "sublist end_marker ?d1"
    using sublist_appendI[of end_marker
        "content @ ?hd @ start_marker @ ''\<newline>```\<newline>'' @ p @ ''\<newline>```\<newline>''" "''\<newline>''"]
    by simp
  have s2: "sublist start_marker ?d2"
    using sublist_appendI[of start_marker "content @ ?hd" "?mid"] by simp
  have h1: "split_head start_marker ?d1 = content @ ?hd"
    using split_head_absent[OF assms newline_not_in_start_marker,
        of "''\<newline>## Latest Output\<newline>'' @ start_marker @ ?mid @ ''\<newline>''"]
      split_head_heading[of "?mid @ ''\<newline>''"]
    by simp
  have d2: "update_readme_with_output p (Some ?d1) = ?d2"
    using s1 e1 h1 by (simp add: update_readme_with_output_def new_section_def)
  have a1: "after_first start_marker ?d1 = ?mid @ ''\<newline>''"
    using after_first_absent[OF assms newline_not_in_start_marker,
        of "''\<newline>## Latest Output\<newline>'' @ start_marker @ ?mid @ ''\<newline>''"]
      after_first_heading[of "?mid @ ''\<newline>''"]
    by simp
  have a2: "after_first start_marker ?d2 = ?mid"
    using after_first_absent[OF assms newline_not_in_start_marker,
        of "''\<newline>## Latest Output\<newline>'' @ start_marker @ ?mid"]
      after_first_heading[of "?mid"]
    by simp
  have "split_head end_marker (?mid @ ''\<newline>'') = split_head end_marker ?mid"
    by (rule split_head_sublist[OF mid_end])
  then have "delimited_section ?d1 = delimited_section ?d2"
    using s1 s2 a1 a2 mid_end mid_end' by (simp add: delimited_section_def)
  then show ?thesis
    unfolding d1 d2 by simp
qed

text \<open>
  C9, as stated, fails on a document that holds a start marker and no end marker: the
  first call appends a new section after the old text, so that the text from the first
  start marker to the end marker holds the old text and the appended heading; the
  second call cuts at the first start marker and leaves the payload alone there.
\<close>

theorem update_twice_changes_section:
  "delimited_section (update_readme_with_output ''x'' (Some (start_marker @ ''\<newline>notes''))) =
     Some (''\<newline>notes\<newline>\<newline>## Latest Output\<newline>'' @ start_marker @ ''\<newline>```\<newline>x\<newline>```\<newline>'') \<and>
   delimited_section
     (update_readme_with_output ''x''
        (Some (update_readme_with_output ''x'' (Some (start_marker @ ''\<newline>notes''))))) =
     Some ''\<newline>```\<newline>x\<newline>```\<newline>''"
  by (simp add: update_readme_with_output_def delimited_section_def start_marker_def
      end_marker_def new_section_def sublist_code)

text \<open>
  C9, amended. For every payload and every document that holds no start marker without
  an end marker (the file may also be missing), calling the operation twice with the
  same payload yields a document whose delimited section equals the one after the first
  call.
\<close>

theorem update_twice_same_section:
  assumes "\<forall>doc. readme = Some doc \<longrightarrow> sublist start_marker doc \<longrightarrow> sublist end_marker doc"
  shows "delimited_section
      (update_readme_with_output p (Some (update_readme_with_output p readme))) =
    delimited_section (update_readme_with_output p readme)"
proof -
  define content where "content =
    (case readme of None \<Rightarrow> ''# AutoGen Demo Project\<newline>\<newline>## Latest Output\<newline>'' | Some c \<Rightarrow> c)"
  have same: "update_readme_with_output p readme = update_readme_with_output p (Some content)"
    by (simp add: update_readme_with_output_def content_def)
  have ok: "sublist start_marker content \<longrightarrow> sublist end_marker content"
    using assms
    by (cases readme) (simp_all add: content_def start_marker_def sublist_code)
  show ?thesis
  proof (cases "sublist start_marker content")
    case True
    with ok update_with_markers show ?thesis unfolding same by simp
  next
    case False
    then show ?thesis unfolding same by (rule update_without_start)
  qed
qed

theorem update_twice_same_section_witness:
  "\<not> sublist start_marker ''# Demo\<newline>'' \<and>
   delimited_section
      (update_readme_with_output ''55'' (Some (update_readme_with_output ''55'' (Some ''# Demo\<newline>'')))) =
    delimited_section (update_readme_with_output ''55'' (Some ''# Demo\<newline>''))"
proof -
  have n: "\<not> sublist start_marker ''# Demo\<newline>''"
    by (simp add: start_marker_def sublist_code)
  then have h: "\<forall>doc. Some ''# Demo\<newline>'' = Some doc \<longrightarrow>
      sublist start_marker doc \<longrightarrow> sublist end_marker doc"
    by simp
  from update_twice_same_section[OF h] n show ?thesis by blast
qed

end
